theory Spec2Isabelle
  imports Main
begin

section \<open>vscode_execute.py: executing a user script inside the host interpreter\<close>

text \<open>
  The module \<^verbatim>\<open>src/python/vscode_execute.py\<close> reads a script file, executes it with
  \<^verbatim>\<open>exec\<close> against one shared dictionary, and reformats the traceback of an exception
  before handing it to \<^verbatim>\<open>unreal.log_error\<close>. The embedding keeps the names of the
  source. Python text is a \<open>string\<close>; one \<open>char\<close> stands for one code point from U+0000
  to U+00FF, and the character classes (\<^verbatim>\<open>str.lower\<close>, \<^verbatim>\<open>str.isdigit\<close>,
  \<^verbatim>\<open>str.strip\<close>, the classes of the regular expression) are Python's on that range. Text
  with a code point above U+00FF is outside the model.

  The functions give the state and the outcome of a call that ends. The module has no loop
  but the one over the entries of a traceback, so a call ends when the executed script
  does; \<open>execute_code_ends\<close> says when that is.
\<close>

subsection \<open>Values, exceptions, events\<close>

text \<open>
  The values a namespace holds. \<open>PyBuiltins\<close> is the \<^verbatim>\<open>__builtins__\<close> object,
  \<open>PyObj\<close> any other object, named by its identity.
\<close>

datatype pyval = PyStr string | PyBool bool | PyInt int | PyBuiltins | PyObj nat

type_synonym namespace = "string \<rightharpoonup> pyval"

text \<open>
  A raised exception, as far as this module looks at it:
  \<^item> whether it is an instance of \<^verbatim>\<open>Exception\<close> (\<^verbatim>\<open>SystemExit\<close>, \<^verbatim>\<open>KeyboardInterrupt\<close> and
    \<^verbatim>\<open>GeneratorExit\<close> derive from \<^verbatim>\<open>BaseException\<close> only);
  \<^item> the source files \<^verbatim>\<open>traceback.format_exception\<close> opens (through \<^verbatim>\<open>linecache\<close>) to show
    the lines of its frames;
  \<^item> the exception \<^verbatim>\<open>traceback.format_exception\<close> itself raises for it, if it does (it
    does for a \<^verbatim>\<open>SyntaxError\<close> whose \<^verbatim>\<open>text\<close> is not a string);
  \<^item> the list of strings \<^verbatim>\<open>traceback.format_exception\<close> returns for it otherwise.
\<close>

datatype py_exc =
  Py_exc (is_Exception: bool) (source_reads: "string list") (format_raises: "py_exc option")
    (format_exception: "string list")

text \<open>
  How a call ends: it returns (\<^verbatim>\<open>None\<close>), an exception leaves it, or the IndexError that
  \<^verbatim>\<open>components[1]\<close> of line 128 raises on a list of one component leaves it.
\<close>

datatype outcome = Returned | Raised py_exc | Raised_IndexError

text \<open>
  The objects that can be bound to \<^verbatim>\<open>unreal.log\<close>, \<^verbatim>\<open>unreal.log_error\<close> and
  \<^verbatim>\<open>unreal.log_warning\<close>: the host's own three functions, the three bound methods of
  \<^verbatim>\<open>UnrealLogRedirectDebugging\<close>, or anything else. Equality of handlers is identity
  of the Python objects.
\<close>

datatype handler =
    Host_log | Host_log_error | Host_log_warning
  | Redirect | Redirect_error | Redirect_warning
  | Other_handler nat

text \<open>
  What the executed script does to the outside by itself: it calls an object bound to a
  logging entry point, reads or writes a file, or does anything else.
\<close>

datatype action =
    Log_call handler string
  | File_read string
  | File_write string string
  | Other_action string

text \<open>
  What happens during a call, in order. The first three are done by the module: a call of
  the object bound to \<^verbatim>\<open>unreal.log_error\<close> with a message (line 137), opening a file for
  reading (line 152, and the source files read for line 121), writing a file (only the
  disabled \<^verbatim>\<open>UnrealLogRedirect.__exit__\<close> of lines 75-76 would). \<open>Script_effect\<close> is an
  action of the executed script.
\<close>

datatype event =
    Call handler string
  | Open_read string
  | Write_file string string
  | Script_effect action

subsection \<open>The state of the process\<close>

text \<open>
  \<open>VsCodeVariables\<close> is the entry \<^verbatim>\<open>"__VsCodeVariables__"\<close> of the module's
  \<^verbatim>\<open>globals()\<close> (\<open>None\<close>: the key is absent). The dictionary is shared by reference in
  Python; the model has the one copy, in the state, and writes every update back to it.
\<close>

record world =
  VsCodeVariables :: "namespace option"
  unreal_log :: handler
  unreal_log_error :: handler
  unreal_log_warning :: handler
  trace :: "event list"

subsection \<open>The logging-redirection shim (lines 79-103)\<close>

text \<open>
  The instance keeps the three handlers it found when it was constructed; the logger
  object plays no part in any binding.
\<close>

record UnrealLogRedirectDebugging =
  original_log :: handler
  original_log_error :: handler
  original_log_warning :: handler

definition init_redirect :: "world \<Rightarrow> UnrealLogRedirectDebugging" where
  "init_redirect w =
     \<lparr>original_log = unreal_log w,
      original_log_error = unreal_log_error w,
      original_log_warning = unreal_log_warning w\<rparr>"

definition enter_redirect :: "UnrealLogRedirectDebugging \<Rightarrow> world \<Rightarrow> world" where
  "enter_redirect self w =
     w\<lparr>unreal_log := Redirect,
       unreal_log_error := Redirect_error,
       unreal_log_warning := Redirect_warning\<rparr>"

definition exit_redirect :: "UnrealLogRedirectDebugging \<Rightarrow> world \<Rightarrow> world" where
  "exit_redirect self w =
     w\<lparr>unreal_log := original_log self,
       unreal_log_error := original_log_error self,
       unreal_log_warning := original_log_warning self\<rparr>"

text \<open>
  \<^verbatim>\<open>with UnrealLogRedirectDebugging(): body\<close>. The instance is constructed, entered, the
  body runs, and \<^verbatim>\<open>__exit__\<close> runs however the body ended; \<^verbatim>\<open>__exit__\<close> returns
  \<^verbatim>\<open>None\<close>, so an exception of the body goes on to the caller.
\<close>

definition with_UnrealLogRedirectDebugging ::
    "(world \<Rightarrow> world \<times> outcome) \<Rightarrow> world \<Rightarrow> world \<times> outcome" where
  "with_UnrealLogRedirectDebugging body w =
     (let self = init_redirect w;
          w1 = enter_redirect self w;
          (w2, r) = body w1
      in (exit_redirect self w2, r))"

subsection \<open>Python's string operations, as far as the module uses them\<close>

definition is_decimal :: "char \<Rightarrow> bool" where
  \<comment> \<open>the class \<^verbatim>\<open>\d\<close> of a \<^verbatim>\<open>str\<close> pattern: the decimal digits, here \<^verbatim>\<open>0\<close> to \<^verbatim>\<open>9\<close>\<close>
  "is_decimal c = (48 \<le> (of_char c :: nat) \<and> (of_char c :: nat) \<le> 57)"

definition is_digit :: "char \<Rightarrow> bool" where
  \<comment> \<open>\<^verbatim>\<open>str.isdigit\<close>: the decimal digits and the superscripts U+00B2, U+00B3, U+00B9\<close>
  "is_digit c =
     (let n = (of_char c :: nat) in (48 \<le> n \<and> n \<le> 57) \<or> n = 178 \<or> n = 179 \<or> n = 185)"

definition is_space :: "char \<Rightarrow> bool" where
  \<comment> \<open>the characters \<^verbatim>\<open>str.strip()\<close> removes: 9-13, 28-32, U+0085 and U+00A0\<close>
  "is_space c =
     (let n = (of_char c :: nat)
      in (9 \<le> n \<and> n \<le> 13) \<or> (28 \<le> n \<and> n \<le> 32) \<or> n = 133 \<or> n = 160)"

definition lower_char :: "char \<Rightarrow> char" where
  \<comment> \<open>\<^verbatim>\<open>str.lower\<close>: \<^verbatim>\<open>A\<close> to \<^verbatim>\<open>Z\<close>, and U+00C0 to U+00DE but the sign U+00D7\<close>
  "lower_char c =
     (let n = (of_char c :: nat)
      in if (65 \<le> n \<and> n \<le> 90) \<or> (192 \<le> n \<and> n \<le> 222 \<and> n \<noteq> 215)
         then char_of (n + 32) else c)"

definition py_lower :: "string \<Rightarrow> string" where
  "py_lower s = map lower_char s"

definition py_strip :: "string \<Rightarrow> string" where
  "py_strip s = rev (dropWhile is_space (rev (dropWhile is_space s)))"

fun starts_with :: "string \<Rightarrow> string \<Rightarrow> bool" where
  "starts_with [] s = True"
| "starts_with (c # cs) [] = False"
| "starts_with (c # cs) (x # xs) = (c = x \<and> starts_with cs xs)"

text \<open>\<^verbatim>\<open>sub in s\<close>: the text \<open>sub\<close> occurs in \<open>s\<close>.\<close>

fun py_in :: "string \<Rightarrow> string \<Rightarrow> bool" where
  "py_in sub [] = starts_with sub []"
| "py_in sub (x # xs) = (starts_with sub (x # xs) \<or> py_in sub xs)"

text \<open>\<^verbatim>\<open>s.split(sep, maxsplit)\<close> for a separator of one character.\<close>

fun py_split :: "char \<Rightarrow> nat \<Rightarrow> string \<Rightarrow> string list" where
  "py_split sep 0 s = [s]"
| "py_split sep (Suc n) s =
     (if sep \<in> set s
      then takeWhile (\<lambda>c. c \<noteq> sep) s # py_split sep n (tl (dropWhile (\<lambda>c. c \<noteq> sep) s))
      else [s])"

text \<open>\<^verbatim>\<open>sep.join(parts)\<close>.\<close>

fun py_join :: "string \<Rightarrow> string list \<Rightarrow> string" where
  "py_join sep [] = []"
| "py_join sep [x] = x"
| "py_join sep (x # y # ys) = x @ sep @ py_join sep (y # ys)"

text \<open>\<^verbatim>\<open>s.replace(c, "", 1)\<close>: the first occurrence of \<open>c\<close> goes, wherever it is.\<close>

fun replace_first :: "char \<Rightarrow> string \<Rightarrow> string" where
  "replace_first c [] = []"
| "replace_first c (x # xs) = (if x = c then xs else x # replace_first c xs)"

subsection \<open>The regular expression of line 126\<close>

text \<open>
  The pattern uses literal text and two starred classes, \<^verbatim>\<open>.*\<close> (any character but a
  newline) and \<^verbatim>\<open>\d*\<close>. \<open>match_here r s\<close>: the pattern matches at the start of \<open>s\<close>;
  every way to divide the text between the pieces is tried, as the backtracking of
  \<^verbatim>\<open>re\<close> does. \<open>re_search\<close> tries every start, so it is the truth value of the list
  \<^verbatim>\<open>re.findall\<close> returns.
\<close>

datatype atom = Dot | Digit

datatype piece = Lit string | Star atom

type_synonym regex = "piece list"

fun atom_matches :: "atom \<Rightarrow> char \<Rightarrow> bool" where
  "atom_matches Dot c = (c \<noteq> CHR 0x0A)"
| "atom_matches Digit c = is_decimal c"

fun match_here :: "regex \<Rightarrow> string \<Rightarrow> bool" where
  "match_here [] s = True"
| "match_here (Lit t # r) s = (starts_with t s \<and> match_here r (drop (length t) s))"
| "match_here (Star a # r) [] = match_here r []"
| "match_here (Star a # r) (c # cs) =
     (match_here r (c # cs) \<or> (atom_matches a c \<and> match_here (Star a # r) cs))"

fun re_search :: "regex \<Rightarrow> string \<Rightarrow> bool" where
  "re_search r [] = match_here r []"
| "re_search r (c # cs) = (match_here r (c # cs) \<or> re_search r cs)"

definition frame_header_re :: regex where
  \<open>frame_header_re = [Lit ''file "'', Star Dot, Lit ''", line '', Star Digit, Lit '', in '']\<close>

subsection \<open>The executed script and the environment\<close>

text \<open>
  What \<^verbatim>\<open>exec\<close> of a script does:
  \<^item> \<open>ends\<close>: whether the execution ends at all (a script may loop for ever; the other
    fields describe an execution that ends);
  \<^item> \<open>ns_after\<close>: the namespace as the script left it (the dictionary is updated in place,
    so this holds also when the script raised);
  \<^item> \<open>effects\<close>: the script's own actions on the outside, in order;
  \<^item> \<open>raised\<close>: the exception that ended it, if one did;
  \<^item> \<open>log_after\<close>, \<open>log_error_after\<close>, \<open>log_warning_after\<close>: the object the script left
    bound to \<^verbatim>\<open>unreal.log\<close>, \<^verbatim>\<open>unreal.log_error\<close>, \<^verbatim>\<open>unreal.log_warning\<close> when it rebound
    the name (\<open>None\<close>: it did not).
\<close>

record exec_result =
  ends :: bool
  ns_after :: namespace
  effects :: "action list"
  raised :: "py_exc option"
  log_after :: "handler option"
  log_error_after :: "handler option"
  log_warning_after :: "handler option"

text \<open>An open file: \<^verbatim>\<open>read()\<close> raises, or gives the text.\<close>

datatype opened_file = Read_raises py_exc | Content string

text \<open>
  The interpreter, the host and the machine are parameters of the model: what
  \<^verbatim>\<open>compile\<close> answers for a source text and file name (\<open>None\<close>: a code object), what
  \<^verbatim>\<open>exec\<close> of it does to a namespace, what calling an object bound to a logging entry
  point with a message does (\<open>None\<close>: it returns, \<open>Some e\<close>: it raises \<open>e\<close>), what
  \<^verbatim>\<open>open(path, 'r', encoding="utf-8")\<close> gives (\<open>Inl\<close>: it raises), and
  \<^verbatim>\<open>tempfile.gettempdir()\<close>.
\<close>

record env =
  py_compile :: "string \<Rightarrow> string \<Rightarrow> py_exc option"
  py_exec :: "string \<Rightarrow> string \<Rightarrow> namespace \<Rightarrow> exec_result"
  py_call :: "handler \<Rightarrow> string \<Rightarrow> py_exc option"
  py_open :: "string \<Rightarrow> py_exc + opened_file"
  gettempdir :: string

subsection \<open>get_exec_globals (lines 106-111)\<close>

definition get_exec_globals :: "world \<Rightarrow> world \<times> namespace" where
  "get_exec_globals w =
     (case VsCodeVariables w of
        None \<Rightarrow>
          (let d = [''__builtins__'' \<mapsto> PyBuiltins, ''__IsVsCodeExec__'' \<mapsto> PyBool True]
           in (w\<lparr>VsCodeVariables := Some d\<rparr>, d))
      | Some d \<Rightarrow> (w, d))"

subsection \<open>execute_code (lines 114-137)\<close>

text \<open>A name the script may have rebound: the new object, or the one that was there.\<close>

definition rebound :: "handler option \<Rightarrow> handler \<Rightarrow> handler" where
  "rebound new old = (case new of None \<Rightarrow> old | Some h \<Rightarrow> h)"

text \<open>
  Line 116, the body of the \<^verbatim>\<open>try\<close>. \<^verbatim>\<open>compile\<close> is evaluated first; when it raises,
  \<^verbatim>\<open>get_exec_globals\<close> is not reached.
\<close>

definition exec_user_code :: "env \<Rightarrow> string \<Rightarrow> string \<Rightarrow> world \<Rightarrow> world \<times> py_exc option" where
  "exec_user_code py code filename w =
     (case py_compile py code filename of
        Some e \<Rightarrow> (w, Some e)
      | None \<Rightarrow>
          (let (w1, d) = get_exec_globals w;
               r = py_exec py code filename d
           in (w1\<lparr>VsCodeVariables := Some (ns_after r),
                  unreal_log := rebound (log_after r) (unreal_log w1),
                  unreal_log_error := rebound (log_error_after r) (unreal_log_error w1),
                  unreal_log_warning := rebound (log_warning_after r) (unreal_log_warning w1),
                  trace := trace w1 @ map Script_effect (effects r)\<rparr>,
               raised r)))"

text \<open>
  Lines 126-131 for one entry of the formatted traceback. \<^verbatim>\<open>components[1]\<close> raises
  IndexError when the split gives one component only; that is the \<open>Inl\<close> branch.
\<close>

datatype py_error = IndexError

definition reformat_line :: "string \<Rightarrow> py_error + string" where
  \<open>reformat_line line =
     (if re_search frame_header_re (py_lower line)
      then (case py_split (CHR '','') 2 line of
              c0 # c1 # cs \<Rightarrow>
                (let line_number = filter is_digit c1;
                     c0' = ''"'' @ butlast c0 @ '':'' @ line_number @ ''"''
                 in Inr (replace_first (CHR ''"'') (py_join '','' (c0' # c1 # cs))))
            | _ \<Rightarrow> Inl IndexError)
      else Inr (replace_first (CHR ''"'') line))\<close>

text \<open>The loop of lines 121-133; \<open>traceback_lines\<close> is the list built so far.\<close>

fun reformat_loop :: "string list \<Rightarrow> string list \<Rightarrow> py_error + string list" where
  "reformat_loop [] traceback_lines = Inr traceback_lines"
| "reformat_loop (line # rest) traceback_lines =
     (if py_in ''execute_code'' line then reformat_loop rest traceback_lines
      else (case reformat_line line of
              Inl err \<Rightarrow> Inl err
            | Inr line' \<Rightarrow> reformat_loop rest (traceback_lines @ [line'])))"

text \<open>
  The handler is not guarded. \<^verbatim>\<open>traceback.format_exception\<close> on line 121 reads the source
  files of the frames and may raise; the call on line 137 goes to whatever object is
  bound to \<^verbatim>\<open>unreal.log_error\<close> when it is reached, and may raise. Either exception leaves
  \<^verbatim>\<open>execute_code\<close>.
\<close>

definition execute_code :: "env \<Rightarrow> string \<Rightarrow> string \<Rightarrow> bool \<Rightarrow> world \<Rightarrow> world \<times> outcome" where
  "execute_code py code filename is_vscode_debugging w =
     (case exec_user_code py code filename w of
        (w1, None) \<Rightarrow> (w1, Returned)
      | (w1, Some e) \<Rightarrow>
          if is_Exception e
          then (let w2 = w1\<lparr>trace := trace w1 @ map Open_read (source_reads e)\<rparr>
                in case format_raises e of
                     Some e' \<Rightarrow> (w2, Raised e')
                   | None \<Rightarrow>
                       (case reformat_loop (format_exception e) [] of
                          Inl err \<Rightarrow> (w2, Raised_IndexError)
                        | Inr traceback_lines \<Rightarrow>
                            (let traceback_message = py_strip (concat traceback_lines);
                                 w3 = w2\<lparr>trace := trace w2 @
                                        [Call (unreal_log_error w2) traceback_message]\<rparr>
                             in case py_call py (unreal_log_error w2) traceback_message of
                                  None \<Rightarrow> (w3, Returned)
                                | Some e' \<Rightarrow> (w3, Raised e'))))
          else (w1, Raised e))"


subsection \<open>main (lines 140-159)\<close>

text \<open>\<^verbatim>\<open>os.path.join\<close> of two parts, in its POSIX form.\<close>

definition os_path_join :: "string \<Rightarrow> string \<Rightarrow> string" where
  "os_path_join a b =
     (if starts_with ''/'' b then b
      else if a = [] \<or> last a = CHR ''/'' then a @ b
      else a @ ''/'' @ b)"

definition TEMP_FOLDERPATH :: "env \<Rightarrow> string" where
  "TEMP_FOLDERPATH py = os_path_join (gettempdir py) ''VSCode-Unreal-Python''"

definition OUTPUT_FILENAME :: string where
  "OUTPUT_FILENAME = ''exec-out''"

definition output_filepath :: "env \<Rightarrow> string \<Rightarrow> string" where
  \<comment> \<open>line 150\<close>
  "output_filepath py command_id =
     os_path_join (TEMP_FOLDERPATH py) (OUTPUT_FILENAME @ ''-'' @ command_id @ ''.json'')"

text \<open>
  Lines 142-148. \<^verbatim>\<open>if name_var:\<close> is Python's truth test: \<^verbatim>\<open>None\<close> and the empty
  string both take the \<^verbatim>\<open>elif\<close>.
\<close>

definition pop_name :: "namespace \<Rightarrow> namespace" where
  \<comment> \<open>lines 147-148\<close>
  "pop_name d = (if d ''__name__'' \<noteq> None then d(''__name__'' := None) else d)"

definition set_file_and_name :: "string \<Rightarrow> string option \<Rightarrow> namespace \<Rightarrow> namespace" where
  \<comment> \<open>lines 144-148, on the dictionary\<close>
  "set_file_and_name exec_origin name_var exec_globals =
     (let d = exec_globals(''__file__'' \<mapsto> PyStr exec_origin)
      in case name_var of
           None \<Rightarrow> pop_name d
         | Some n \<Rightarrow> if n \<noteq> [] then d(''__name__'' \<mapsto> PyStr n) else pop_name d)"

definition main_setup :: "string \<Rightarrow> string option \<Rightarrow> world \<Rightarrow> world" where
  "main_setup exec_origin name_var w =
     (let (w1, exec_globals) = get_exec_globals w
      in w1\<lparr>VsCodeVariables := Some (set_file_and_name exec_origin name_var exec_globals)\<rparr>)"

text \<open>
  Lines 156 and 159: the argument \<^verbatim>\<open>vscode_in_file.read()\<close> is evaluated before
  \<^verbatim>\<open>execute_code\<close> is entered, so what it raises is outside the \<^verbatim>\<open>try\<close>.
\<close>

definition read_and_execute :: "env \<Rightarrow> opened_file \<Rightarrow> string \<Rightarrow> bool \<Rightarrow> world \<Rightarrow> world \<times> outcome" where
  "read_and_execute py vscode_in_file exec_origin is_debugging w =
     (case vscode_in_file of
        Read_raises e \<Rightarrow> (w, Raised e)
      | Content code \<Rightarrow> execute_code py code exec_origin is_debugging w)"

definition main ::
    "env \<Rightarrow> string \<Rightarrow> string \<Rightarrow> string \<Rightarrow> bool \<Rightarrow> string option \<Rightarrow> world \<Rightarrow> world \<times> outcome" where
  "main py exec_file exec_origin command_id is_debugging name_var w =
     (let w1 = main_setup exec_origin name_var w;
          out_path = output_filepath py command_id;
          w2 = w1\<lparr>trace := trace w1 @ [Open_read exec_file]\<rparr>
      in case py_open py exec_file of
           Inl e \<Rightarrow> (w2, Raised e)
         | Inr vscode_in_file \<Rightarrow>
             if \<not> is_debugging
             then read_and_execute py vscode_in_file exec_origin is_debugging w2
             else with_UnrealLogRedirectDebugging
                    (read_and_execute py vscode_in_file exec_origin is_debugging) w2)"

subsection \<open>Observing a run\<close>

text \<open>
  The events a call added to the trace; the calls of logging entry points among some
  events, whoever made them (\<open>calls\<close>), those the module made (\<open>module_calls\<close>) and those
  among the actions of a script (\<open>script_calls\<close>); the module's own file-system events;
  and the binding of a name in the shared namespace (\<open>None\<close> when the name, or the
  namespace, is absent).
\<close>

definition new_events :: "world \<Rightarrow> world \<Rightarrow> event list" where
  "new_events w w' = drop (length (trace w)) (trace w')"

fun calls :: "event list \<Rightarrow> (handler \<times> string) list" where
  "calls [] = []"
| "calls (Call h m # evs) = (h, m) # calls evs"
| "calls (Script_effect (Log_call h m) # evs) = (h, m) # calls evs"
| "calls (ev # evs) = calls evs"




definition namespace_get :: "world \<Rightarrow> string \<Rightarrow> pyval option" where
  "namespace_get w k = (case VsCodeVariables w of None \<Rightarrow> None | Some d \<Rightarrow> d k)"

subsection \<open>The shape of a formatted traceback\<close>

text \<open>
  \<^verbatim>\<open>traceback.format_exception\<close> gives one string per stack frame: the header
  \<^verbatim>\<open>  File "<path>", line <N>, in <scope>\<close> with its newline, then the source text of the
  line when it is known. The line number is its decimal digits.
\<close>

definition frame_header :: "string \<Rightarrow> string \<Rightarrow> string \<Rightarrow> string" where
  \<open>frame_header path lineno scope =
     ''  File "'' @ path @ ''", line '' @ lineno @ '', in '' @ scope @ ''\<newline>''\<close>

definition frame_entry :: "string \<Rightarrow> string \<Rightarrow> string \<Rightarrow> string \<Rightarrow> string" where
  "frame_entry path lineno scope source_text = frame_header path lineno scope @ source_text"


subsection \<open>Sample scripts, files and states\<close>

text \<open>
  A small interpreter for a few one-line scripts, used to run the model on concrete
  inputs. \<open>sample_traceback\<close> is the formatted traceback of an exception raised at line 1
  of a script executed by line 116: the heading, the frame of \<^verbatim>\<open>execute_code\<close>, the frame
  of the script, and the line that names the exception. To show the two source lines the
  formatting reads the module's file and the script's.
\<close>

definition module_file :: string where
  "module_file = ''/ue/python/vscode_execute.py''"

definition execute_code_frame :: string where
  \<open>execute_code_frame =
     frame_entry ''/ue/python/vscode_execute.py'' ''116'' ''execute_code''
       ''    exec(compile(code, filename, "exec"), get_exec_globals())\<newline>''\<close>

definition sample_traceback :: "string \<Rightarrow> string \<Rightarrow> string \<Rightarrow> string list" where
  "sample_traceback filename code last_line =
     [''Traceback (most recent call last):\<newline>'',
      execute_code_frame,
      frame_entry filename ''1'' ''<module>'' (''    '' @ code @ ''\<newline>''),
      last_line]"

definition system_exit :: "string \<Rightarrow> py_exc" where
  "system_exit filename =
     Py_exc False [module_file, filename] None
       (sample_traceback filename ''raise SystemExit'' ''SystemExit\<newline>'')"

definition zero_division :: "string \<Rightarrow> py_exc" where
  "zero_division filename =
     Py_exc True [module_file, filename] None
       (sample_traceback filename ''1/0'' ''ZeroDivisionError: division by zero\<newline>'')"

text \<open>
  The exception \<^verbatim>\<open>traceback.format_exception\<close> raises for a \<^verbatim>\<open>SyntaxError\<close> whose text is
  the number 12345, the \<^verbatim>\<open>SyntaxError\<close> itself, and the \<^verbatim>\<open>TypeError\<close> of calling
  \<^verbatim>\<open>None\<close>.
\<close>

definition attribute_error :: py_exc where
  "attribute_error = Py_exc True [] None [''AttributeError\<newline>'']"

definition malformed_syntax_error :: py_exc where
  "malformed_syntax_error = Py_exc True [module_file] (Some attribute_error) []"

definition type_error :: py_exc where
  "type_error =
     Py_exc True [] None [''TypeError: 'NoneType' object is not callable\<newline>'']"

definition file_not_found :: py_exc where
  "file_not_found =
     Py_exc True [] None [''FileNotFoundError: [Errno 2] No such file or directory\<newline>'']"

definition unicode_decode_error :: py_exc where
  "unicode_decode_error =
     Py_exc True [] None [''UnicodeDecodeError: 'utf-8' codec can't decode byte 0xff\<newline>'']"

text \<open>The result of a script that ends, changes nothing and raises nothing.\<close>

definition plain_result :: "namespace \<Rightarrow> exec_result" where
  "plain_result d =
     \<lparr>ends = True, ns_after = d, effects = [], raised = None,
      log_after = None, log_error_after = None, log_warning_after = None\<rparr>"

definition sample_exec :: "string \<Rightarrow> string \<Rightarrow> namespace \<Rightarrow> exec_result" where
  "sample_exec code filename d =
     (if code = ''x = 1''
      then (plain_result d)\<lparr>ns_after := d(''x'' \<mapsto> PyInt 1)\<rparr>
      else if code = ''__name__ = 5''
      then (plain_result d)\<lparr>ns_after := d(''__name__'' \<mapsto> PyInt 5)\<rparr>
      else if code = ''raise SystemExit''
      then (plain_result d)\<lparr>raised := Some (system_exit filename)\<rparr>
      else if code = ''1/0''
      then (plain_result d)\<lparr>raised := Some (zero_division filename)\<rparr>
      else if code = ''raise SyntaxError('bad', ('f.py', 1, 1, 12345))''
      then (plain_result d)\<lparr>raised := Some malformed_syntax_error\<rparr>
      else if code = ''unreal.log_error('hi')''
      then (plain_result d)\<lparr>effects := [Log_call Host_log_error ''hi'']\<rparr>
      else if code = ''unreal.log_error = None; 1/0''
      then (plain_result d)
             \<lparr>raised := Some (zero_division filename),
              log_error_after := Some (Other_handler 0)\<rparr>
      else if code = ''while True: pass''
      then (plain_result d)\<lparr>ends := False\<rparr>
      else plain_result d)"

definition sample_open :: "string \<Rightarrow> py_exc + opened_file" where
  "sample_open path =
     (if path = ''/tmp/one.py'' then Inr (Content ''x = 1'')
      else if path = ''/tmp/name.py'' then Inr (Content ''__name__ = 5'')
      else if path = ''/tmp/zero.py'' then Inr (Content ''1/0'')
      else if path = ''/tmp/binary.py'' then Inr (Read_raises unicode_decode_error)
      else Inl file_not_found)"

definition no_compile_error :: "string \<Rightarrow> string \<Rightarrow> py_exc option" where
  "no_compile_error code filename = None"

text \<open>The host's functions and the shim's methods return; calling \<^verbatim>\<open>None\<close> raises.\<close>

definition sample_call :: "handler \<Rightarrow> string \<Rightarrow> py_exc option" where
  "sample_call h msg = (case h of Other_handler n \<Rightarrow> Some type_error | _ \<Rightarrow> None)"

definition sample_env :: env where
  "sample_env =
     \<lparr>py_compile = no_compile_error, py_exec = sample_exec, py_call = sample_call,
      py_open = sample_open, gettempdir = ''/tmp''\<rparr>"

definition fresh_world :: world where
  "fresh_world =
     \<lparr>VsCodeVariables = None, unreal_log = Host_log, unreal_log_error = Host_log_error,
      unreal_log_warning = Host_log_warning, trace = []\<rparr>"

text \<open>
  The process after a first invocation of \<^verbatim>\<open>main\<close>: on the script \<^verbatim>\<open>x = 1\<close> with the name
  \<^verbatim>\<open>__main__\<close>, and on the script \<^verbatim>\<open>__name__ = 5\<close> with no name.
\<close>

definition sample_after_one :: world where
  "sample_after_one =
     fst (main sample_env ''/tmp/one.py'' ''/tmp/one.py'' ''1'' False (Some ''__main__'')
            fresh_world)"

definition sample_after_name :: world where
  "sample_after_name =
     fst (main sample_env ''/tmp/name.py'' ''/tmp/name.py'' ''1'' False None fresh_world)"

section \<open>Properties\<close>

subsection \<open>Facts about the string operations and the loop\<close>

lemma starts_with_append: "starts_with t (t @ s)"
  by (induction t) auto

lemma starts_with_iff: "starts_with t s \<longleftrightarrow> (\<exists>r. s = t @ r)"
proof (induction t s rule: starts_with.induct)
  case (1 s) show ?case by simp
next
  case (2 c cs) show ?case by simp
next
  case (3 c cs x xs) then show ?case by auto
qed

lemma starts_with_set: "starts_with t s \<Longrightarrow> set t \<subseteq> set s"
  by (auto simp: starts_with_iff)

lemma py_in_iff: "py_in sub s \<longleftrightarrow> (\<exists>a b. s = a @ sub @ b)"
proof (induction s)
  case Nil
  show ?case by (auto simp: starts_with_iff)
next
  case (Cons x xs)
  show ?case
  proof
    assume "py_in sub (x # xs)"
    then consider "starts_with sub (x # xs)" | "py_in sub xs" by auto
    then show "\<exists>a b. x # xs = a @ sub @ b"
    proof cases
      case 1
      then obtain r where "x # xs = sub @ r" by (auto simp: starts_with_iff)
      then have "x # xs = [] @ sub @ r" by simp
      then show ?thesis by blast
    next
      case 2
      with Cons obtain a b where "xs = a @ sub @ b" by blast
      then have "x # xs = (x # a) @ sub @ b" by simp
      then show ?thesis by blast
    qed
  next
    assume "\<exists>a b. x # xs = a @ sub @ b"
    then obtain a b where ab: "x # xs = a @ sub @ b" by blast
    show "py_in sub (x # xs)"
    proof (cases a)
      case Nil
      with ab have "starts_with sub (x # xs)" by (auto simp: starts_with_iff)
      then show ?thesis by simp
    next
      case (Cons y ys)
      with ab have "xs = ys @ sub @ b" by simp
      with Cons.IH have "py_in sub xs" by blast
      then show ?thesis by simp
    qed
  qed
qed

lemma match_here_lit_set:
  "match_here r s \<Longrightarrow> Lit t \<in> set r \<Longrightarrow> set t \<subseteq> set s"
proof (induction r s rule: match_here.induct)
  case (1 s) then show ?case by simp
next
  case (2 t' r s)
  then show ?case using starts_with_set set_drop_subset by fastforce
next
  case (3 a r) then show ?case by auto
next
  case (4 a r c cs) then show ?case by auto
qed

lemma re_search_lit_set:
  "re_search r s \<Longrightarrow> Lit t \<in> set r \<Longrightarrow> set t \<subseteq> set s"
proof (induction s)
  case Nil then show ?case using match_here_lit_set by fastforce
next
  case (Cons c cs)
  then show ?case using match_here_lit_set by fastforce
qed

lemma lower_char_not_letter:
  assumes "lower_char c = d"
    and "\<not> (97 \<le> (of_char d :: nat) \<and> (of_char d :: nat) \<le> 122)"
    and "\<not> (224 \<le> (of_char d :: nat) \<and> (of_char d :: nat) \<le> 254)"
  shows "c = d"
proof (cases "(65 \<le> (of_char c :: nat) \<and> (of_char c :: nat) \<le> 90) \<or>
    (192 \<le> (of_char c :: nat) \<and> (of_char c :: nat) \<le> 222 \<and> (of_char c :: nat) \<noteq> 215)")
  case True
  then have "d = char_of ((of_char c :: nat) + 32)"
    using assms(1) by (simp add: lower_char_def Let_def)
  then have "(of_char d :: nat) = ((of_char c :: nat) + 32) mod 256"
    by simp
  with True have "(of_char d :: nat) = (of_char c :: nat) + 32" by auto
  with True assms(2,3) show ?thesis by auto
next
  case False
  with assms(1) show ?thesis by (simp add: lower_char_def Let_def)
qed

lemma lower_char_comma: "lower_char c = CHR '','' \<longleftrightarrow> c = CHR '',''"
proof
  assume "lower_char c = CHR '',''"
  then show "c = CHR '',''" by (rule lower_char_not_letter) simp_all
next
  assume "c = CHR '',''"
  then show "lower_char c = CHR '',''" by (simp add: lower_char_def)
qed

lemma comma_in_py_lower: "CHR '','' \<in> set (py_lower s) \<longleftrightarrow> CHR '','' \<in> set s"
proof (induction s)
  case Nil
  show ?case by (simp add: py_lower_def)
next
  case (Cons x xs)
  have "CHR '','' = lower_char x \<longleftrightarrow> x = CHR '',''"
    using lower_char_comma [of x] by auto
  with Cons show ?case by (auto simp: py_lower_def)
qed

lemma frame_header_has_comma:
  assumes "re_search frame_header_re (py_lower line)"
  shows "CHR '','' \<in> set line"
proof -
  have \<open>Lit ''", line '' \<in> set frame_header_re\<close> by (simp add: frame_header_re_def)
  from re_search_lit_set [OF assms this] have "CHR '','' \<in> set (py_lower line)" by auto
  then show ?thesis by (simp add: comma_in_py_lower)
qed

lemma py_split_two:
  "sep \<in> set s \<Longrightarrow> \<exists>c0 c1 cs. py_split sep (Suc (Suc n)) s = c0 # c1 # cs"
  by (auto split: if_splits)

lemma reformat_line_total: "\<exists>m. reformat_line line = Inr m"
proof (cases "re_search frame_header_re (py_lower line)")
  case True
  then have "CHR '','' \<in> set line" by (rule frame_header_has_comma)
  then obtain c0 c1 cs where "py_split (CHR '','') (Suc (Suc 0)) line = c0 # c1 # cs"
    using py_split_two by blast
  with True show ?thesis by (simp add: reformat_line_def numeral_2_eq_2 Let_def)
next
  case False
  then show ?thesis by (simp add: reformat_line_def)
qed

lemma reformat_loop_acc:
  "\<exists>ms. reformat_loop ls acc = Inr (acc @ ms) \<and>
     list_all2 (\<lambda>l m. reformat_line l = Inr m)
       (filter (\<lambda>l. \<not> py_in ''execute_code'' l) ls) ms"
proof (induction ls arbitrary: acc)
  case Nil
  show ?case by simp
next
  case (Cons l ls)
  show ?case
  proof (cases "py_in ''execute_code'' l")
    case True
    with Cons.IH [of acc] show ?thesis by simp
  next
    case False
    obtain m where m: "reformat_line l = Inr m" using reformat_line_total by blast
    from Cons.IH [of "acc @ [m]"] obtain ms where
      ms: "reformat_loop ls (acc @ [m]) = Inr ((acc @ [m]) @ ms)"
        "list_all2 (\<lambda>l m. reformat_line l = Inr m)
           (filter (\<lambda>l. \<not> py_in ''execute_code'' l) ls) ms"
      by blast
    have "reformat_loop (l # ls) acc = Inr (acc @ (m # ms))"
      using False m ms(1) by simp
    moreover have "list_all2 (\<lambda>l m. reformat_line l = Inr m)
           (filter (\<lambda>l. \<not> py_in ''execute_code'' l) (l # ls)) (m # ms)"
      using False m ms(2) by simp
    ultimately show ?thesis by blast
  qed
qed

lemma match_here_skip_star: "match_here r s \<Longrightarrow> match_here (Star a # r) s"
  by (cases s) simp_all

lemma match_here_star:
  "\<forall>c\<in>set xs. atom_matches a c \<Longrightarrow> match_here r s \<Longrightarrow> match_here (Star a # r) (xs @ s)"
  by (induction xs) (simp_all add: match_here_skip_star)

lemma match_here_lit: "match_here r s \<Longrightarrow> match_here (Lit t # r) (t @ s)"
  by (simp add: starts_with_append)

lemma re_search_here: "match_here r s \<Longrightarrow> re_search r s"
  by (cases s) simp_all

lemma re_search_prefix: "re_search r s \<Longrightarrow> re_search r (p @ s)"
  by (induction p) simp_all

lemma is_decimal_lower: "is_decimal c \<Longrightarrow> lower_char c = c"
  by (simp add: is_decimal_def lower_char_def Let_def)

lemma is_decimal_is_digit: "is_decimal c \<Longrightarrow> is_digit c"
  by (simp add: is_decimal_def is_digit_def Let_def)

lemma lower_char_newline: "lower_char c \<noteq> CHR 0x0A \<longleftrightarrow> c \<noteq> CHR 0x0A"
proof -
  have "lower_char c = CHR 0x0A \<Longrightarrow> c = CHR 0x0A"
    by (rule lower_char_not_letter) simp_all
  moreover have "lower_char (CHR 0x0A) = CHR 0x0A" by (simp add: lower_char_def)
  ultimately show ?thesis by auto
qed

lemma lower_char_F: "lower_char (CHR ''F'') = CHR ''f''"
  by code_simp

lemma frame_entry_py_lower:
  \<open>py_lower (frame_entry path lineno scope source_text) =
     ''  '' @ (''file "'' @ (py_lower path @ (''", line '' @ (py_lower lineno @
       ('', in '' @ py_lower (scope @ ''\<newline>'' @ source_text))))))\<close>
  by (simp add: frame_entry_def frame_header_def py_lower_def lower_char_F)
     (simp add: lower_char_def)

lemma frame_entry_matches:
  assumes "CHR 0x0A \<notin> set path" and "\<forall>c\<in>set lineno. is_decimal c"
  shows "re_search frame_header_re (py_lower (frame_entry path lineno scope source_text))"
proof -
  let ?rest = "py_lower (scope @ ''\<newline>'' @ source_text)"
  have dot: "\<forall>c\<in>set (py_lower path). atom_matches Dot c"
    using assms(1) by (auto simp: py_lower_def lower_char_newline)
  have dig: "\<forall>c\<in>set (py_lower lineno). atom_matches Digit c"
    using assms(2) by (auto simp: py_lower_def is_decimal_lower)
  have "match_here [] ?rest" by simp
  then have "match_here [Lit '', in ''] ('', in '' @ ?rest)" by (rule match_here_lit)
  then have "match_here [Star Digit, Lit '', in ''] (py_lower lineno @ ('', in '' @ ?rest))"
    using dig by (rule match_here_star [rotated])
  then have \<open>match_here [Lit ''", line '', Star Digit, Lit '', in '']
      (''", line '' @ (py_lower lineno @ ('', in '' @ ?rest)))\<close>
    by (rule match_here_lit)
  then have \<open>match_here [Star Dot, Lit ''", line '', Star Digit, Lit '', in '']
      (py_lower path @ (''", line '' @ (py_lower lineno @ ('', in '' @ ?rest))))\<close>
    using dot by (rule match_here_star [rotated])
  then have \<open>match_here frame_header_re
      (''file "'' @ (py_lower path @ (''", line '' @ (py_lower lineno @ ('', in '' @ ?rest)))))\<close>
    unfolding frame_header_re_def by (rule match_here_lit)
  then have \<open>re_search frame_header_re
      (''  '' @ (''file "'' @ (py_lower path @ (''", line '' @ (py_lower lineno @ ('', in '' @ ?rest))))))\<close>
    by (intro re_search_prefix re_search_here)
  then show ?thesis by (simp only: frame_entry_py_lower)
qed

lemma takeWhile_until:
  "sep \<notin> set a \<Longrightarrow> takeWhile (\<lambda>x. x \<noteq> sep) (a @ sep # r) = a"
  by (induction a) auto

lemma dropWhile_until:
  "sep \<notin> set a \<Longrightarrow> dropWhile (\<lambda>x. x \<noteq> sep) (a @ sep # r) = sep # r"
  by (induction a) auto

lemma py_split_three:
  assumes "sep \<notin> set a" and "sep \<notin> set b"
  shows "py_split sep 2 (a @ sep # b @ sep # c) = [a, b, c]"
proof -
  have a: "takeWhile (\<lambda>x. x \<noteq> sep) (a @ sep # b @ sep # c) = a"
    using assms(1) by (rule takeWhile_until)
  have a': "dropWhile (\<lambda>x. x \<noteq> sep) (a @ sep # b @ sep # c) = sep # b @ sep # c"
    using assms(1) by (rule dropWhile_until)
  have b: "takeWhile (\<lambda>x. x \<noteq> sep) (b @ sep # c) = b"
    using assms(2) by (rule takeWhile_until)
  have b': "dropWhile (\<lambda>x. x \<noteq> sep) (b @ sep # c) = sep # c"
    using assms(2) by (rule dropWhile_until)
  show ?thesis by (simp add: numeral_2_eq_2 a a' b b')
qed

lemma is_decimal_not_comma: "is_decimal c \<Longrightarrow> c \<noteq> CHR '',''"
  by (auto simp: is_decimal_def)

lemma filter_digits:
  assumes "\<forall>c\<in>set ds. is_decimal c"
  shows "filter is_digit ('' line '' @ ds) = ds"
proof -
  have "filter is_digit ds = ds"
    using assms by (simp add: filter_id_conv is_decimal_is_digit)
  then show ?thesis by (simp add: is_digit_def)
qed

lemma reformat_line_header_without_comma:
  assumes "CHR '','' \<notin> set path" and "CHR 0x0A \<notin> set path"
    and "\<forall>c\<in>set lineno. is_decimal c"
  shows \<open>reformat_line (frame_entry path lineno scope source_text) =
     Inr (''  File "'' @ path @ '':'' @ lineno @ ''", line '' @ lineno @ '', in '' @ scope @
          ''\<newline>'' @ source_text)\<close>
proof -
  let ?a = \<open>''  File "'' @ path @ ''"''\<close>
  let ?b = "'' line '' @ lineno"
  let ?c = "'' in '' @ scope @ ''\<newline>'' @ source_text"
  have e: "frame_entry path lineno scope source_text = ?a @ CHR '','' # ?b @ CHR '','' # ?c"
    by (simp add: frame_entry_def frame_header_def)
  have na: "CHR '','' \<notin> set ?a" using assms(1) by simp
  have nb: "CHR '','' \<notin> set ?b" using assms(3) is_decimal_not_comma by auto
  have sp: "py_split (CHR '','') 2 (frame_entry path lineno scope source_text) = [?a, ?b, ?c]"
    unfolding e using na nb by (rule py_split_three)
  have m: "re_search frame_header_re (py_lower (frame_entry path lineno scope source_text))"
    using assms(2,3) by (rule frame_entry_matches)
  have bl: \<open>butlast ?a = ''  File "'' @ path\<close> by (simp add: butlast_append)
  show ?thesis
    unfolding reformat_line_def
    by (simp only: m sp if_True list.case Let_def bl filter_digits [OF assms(3)])
       simp
qed


lemma replace_first_absent: "c \<notin> set s \<Longrightarrow> replace_first c s = s"
  by (induction s) auto

lemma replace_first_at: "c \<notin> set a \<Longrightarrow> replace_first c (a @ c # b) = a @ b"
  by (induction a) auto

subsection \<open>Facts about the state and the trace\<close>

lemma get_exec_globals_frame:
  "unreal_log (fst (get_exec_globals w)) = unreal_log w"
  "unreal_log_error (fst (get_exec_globals w)) = unreal_log_error w"
  "unreal_log_warning (fst (get_exec_globals w)) = unreal_log_warning w"
  "trace (fst (get_exec_globals w)) = trace w"
  "VsCodeVariables (fst (get_exec_globals w)) = Some (snd (get_exec_globals w))"
  by (simp_all add: get_exec_globals_def Let_def split: option.split)

lemma get_exec_globals_existing:
  "VsCodeVariables w = Some d \<Longrightarrow> get_exec_globals w = (w, d)"
  by (simp add: get_exec_globals_def)


lemma exec_user_code_compiled:
  "py_compile py code filename = None \<Longrightarrow>
   exec_user_code py code filename w =
     ((fst (get_exec_globals w))
        \<lparr>VsCodeVariables := Some (ns_after (py_exec py code filename (snd (get_exec_globals w)))),
          unreal_log :=
            rebound (log_after (py_exec py code filename (snd (get_exec_globals w))))
              (unreal_log w),
          unreal_log_error :=
            rebound (log_error_after (py_exec py code filename (snd (get_exec_globals w))))
              (unreal_log_error w),
          unreal_log_warning :=
            rebound (log_warning_after (py_exec py code filename (snd (get_exec_globals w))))
              (unreal_log_warning w),
          trace := trace w @
            map Script_effect (effects (py_exec py code filename (snd (get_exec_globals w))))\<rparr>,
      raised (py_exec py code filename (snd (get_exec_globals w))))"
  by (simp add: exec_user_code_def Let_def case_prod_beta get_exec_globals_frame)


lemma exec_user_code_namespace:
  "py_compile py code filename = None \<Longrightarrow>
   VsCodeVariables (fst (exec_user_code py code filename w)) =
     Some (ns_after (py_exec py code filename (snd (get_exec_globals w))))"
  by (simp add: exec_user_code_compiled)

lemma calls_append: "calls (xs @ ys) = calls xs @ calls ys"
  by (induction xs rule: calls.induct) simp_all


lemma calls_Open_read: "calls (map Open_read ps) = []"
  by (induction ps) simp_all








lemma new_events_append: "trace w' = trace w @ evs \<Longrightarrow> new_events w w' = evs"
  by (simp add: new_events_def)

text \<open>The four ways through \<^verbatim>\<open>execute_code\<close>, each as an equation.\<close>

lemma execute_code_returned:
  assumes "snd (exec_user_code py code filename w) = None"
  shows "execute_code py code filename dbg w = (fst (exec_user_code py code filename w), Returned)"
  using assms by (cases "exec_user_code py code filename w") (simp add: execute_code_def)

lemma execute_code_not_Exception:
  assumes "snd (exec_user_code py code filename w) = Some e" and "\<not> is_Exception e"
  shows "execute_code py code filename dbg w = (fst (exec_user_code py code filename w), Raised e)"
  using assms by (cases "exec_user_code py code filename w") (simp add: execute_code_def)

lemma execute_code_format_raises:
  assumes "snd (exec_user_code py code filename w) = Some e" and "is_Exception e"
    and "format_raises e = Some e'"
  shows "execute_code py code filename dbg w =
     ((fst (exec_user_code py code filename w))
        \<lparr>trace := trace (fst (exec_user_code py code filename w)) @
           map Open_read (source_reads e)\<rparr>,
      Raised e')"
  using assms
  by (cases "exec_user_code py code filename w") (simp add: execute_code_def Let_def)

lemma execute_code_formatted:
  assumes "snd (exec_user_code py code filename w) = Some e" and "is_Exception e"
    and "format_raises e = None"
  shows "\<exists>lines.
           list_all2 (\<lambda>l m. reformat_line l = Inr m)
             (filter (\<lambda>l. \<not> py_in ''execute_code'' l) (format_exception e)) lines \<and>
           execute_code py code filename dbg w =
             ((fst (exec_user_code py code filename w))
                \<lparr>trace := trace (fst (exec_user_code py code filename w)) @
                   map Open_read (source_reads e) @
                   [Call (unreal_log_error (fst (exec_user_code py code filename w)))
                      (py_strip (concat lines))]\<rparr>,
              case py_call py (unreal_log_error (fst (exec_user_code py code filename w)))
                     (py_strip (concat lines)) of
                None \<Rightarrow> Returned
              | Some e' \<Rightarrow> Raised e')"
proof -
  obtain lines where
    l: "reformat_loop (format_exception e) [] = Inr ([] @ lines)"
       "list_all2 (\<lambda>l m. reformat_line l = Inr m)
          (filter (\<lambda>l. \<not> py_in ''execute_code'' l) (format_exception e)) lines"
    using reformat_loop_acc [of "format_exception e" "[]"] by blast
  have "execute_code py code filename dbg w =
          ((fst (exec_user_code py code filename w))
             \<lparr>trace := trace (fst (exec_user_code py code filename w)) @
                map Open_read (source_reads e) @
                [Call (unreal_log_error (fst (exec_user_code py code filename w)))
                   (py_strip (concat lines))]\<rparr>,
           case py_call py (unreal_log_error (fst (exec_user_code py code filename w)))
                  (py_strip (concat lines)) of
             None \<Rightarrow> Returned
           | Some e' \<Rightarrow> Raised e')"
    using assms l(1)
    by (cases "exec_user_code py code filename w")
       (simp add: execute_code_def Let_def split: option.split)
  with l(2) show ?thesis by blast
qed

text \<open>
  In every case the state after \<^verbatim>\<open>execute_code\<close> is the state after line 116 with events
  of the module added to the trace; none of them writes a file.
\<close>

lemma execute_code_world:
  "\<exists>reads cs. fst (execute_code py code filename dbg w) =
     (fst (exec_user_code py code filename w))
        \<lparr>trace := trace (fst (exec_user_code py code filename w)) @
           map Open_read reads @ map (\<lambda>(h, m). Call h m) cs\<rparr>"
proof (cases "snd (exec_user_code py code filename w)")
  case None
  then have "fst (execute_code py code filename dbg w) =
     (fst (exec_user_code py code filename w))
        \<lparr>trace := trace (fst (exec_user_code py code filename w)) @
           map Open_read [] @ map (\<lambda>(h, m). Call h m) []\<rparr>"
    using execute_code_returned [of py code filename w dbg] by simp
  then show ?thesis by blast
next
  case (Some e)
  show ?thesis
  proof (cases "is_Exception e")
    case False
    then have "fst (execute_code py code filename dbg w) =
     (fst (exec_user_code py code filename w))
        \<lparr>trace := trace (fst (exec_user_code py code filename w)) @
           map Open_read [] @ map (\<lambda>(h, m). Call h m) []\<rparr>"
      using Some execute_code_not_Exception [of py code filename w e dbg] by simp
    then show ?thesis by blast
  next
    case True
    show ?thesis
    proof (cases "format_raises e")
      case (Some e')
      then have "fst (execute_code py code filename dbg w) =
       (fst (exec_user_code py code filename w))
          \<lparr>trace := trace (fst (exec_user_code py code filename w)) @
             map Open_read (source_reads e) @ map (\<lambda>(h, m). Call h m) []\<rparr>"
        using \<open>snd (exec_user_code py code filename w) = Some e\<close> True
          execute_code_format_raises [of py code filename w e e' dbg]
        by simp
      then show ?thesis by blast
    next
      case None
      from execute_code_formatted [OF \<open>snd (exec_user_code py code filename w) = Some e\<close> True None,
          of dbg]
      obtain lines where "fst (execute_code py code filename dbg w) =
       (fst (exec_user_code py code filename w))
          \<lparr>trace := trace (fst (exec_user_code py code filename w)) @
             map Open_read (source_reads e) @
             map (\<lambda>(h, m). Call h m)
               [(unreal_log_error (fst (exec_user_code py code filename w)),
                 py_strip (concat lines))]\<rparr>"
        by auto
      then show ?thesis by blast
    qed
  qed
qed

lemma execute_code_frame:
  "VsCodeVariables (fst (execute_code py code filename dbg w)) =
     VsCodeVariables (fst (exec_user_code py code filename w))"
  using execute_code_world [of py code filename dbg w] by auto

lemma execute_code_namespace:
  "py_compile py code filename = None \<Longrightarrow>
   VsCodeVariables (fst (execute_code py code filename dbg w)) =
     Some (ns_after (py_exec py code filename (snd (get_exec_globals w))))"
  by (simp add: execute_code_frame exec_user_code_namespace)




subsection \<open>Facts about main\<close>

lemma set_file_and_name_file:
  "set_file_and_name exec_origin name_var d ''__file__'' = Some (PyStr exec_origin)"
  by (simp add: set_file_and_name_def pop_name_def Let_def split: option.split)

lemma set_file_and_name_given:
  "n \<noteq> [] \<Longrightarrow> set_file_and_name exec_origin (Some n) d ''__name__'' = Some (PyStr n)"
  by (simp add: set_file_and_name_def Let_def)

lemma set_file_and_name_omitted:
  "name_var = None \<or> name_var = Some [] \<Longrightarrow>
   set_file_and_name exec_origin name_var d ''__name__'' = None"
  by (auto simp: set_file_and_name_def pop_name_def Let_def)

lemma set_file_and_name_other:
  "k \<noteq> ''__file__'' \<Longrightarrow> k \<noteq> ''__name__'' \<Longrightarrow>
   set_file_and_name exec_origin name_var d k = d k"
  by (simp add: set_file_and_name_def pop_name_def Let_def split: option.split)

lemma main_setup_eq:
  "main_setup exec_origin name_var w =
     (fst (get_exec_globals w))
       \<lparr>VsCodeVariables :=
          Some (set_file_and_name exec_origin name_var (snd (get_exec_globals w)))\<rparr>"
  by (simp add: main_setup_def case_prod_beta)

lemma main_setup_frame:
  "VsCodeVariables (main_setup exec_origin name_var w) =
     Some (set_file_and_name exec_origin name_var (snd (get_exec_globals w)))"
  "unreal_log (main_setup exec_origin name_var w) = unreal_log w"
  "unreal_log_error (main_setup exec_origin name_var w) = unreal_log_error w"
  "unreal_log_warning (main_setup exec_origin name_var w) = unreal_log_warning w"
  "trace (main_setup exec_origin name_var w) = trace w"
  by (simp_all add: main_setup_eq get_exec_globals_frame)

lemma redirect_frame:
  "VsCodeVariables (fst (with_UnrealLogRedirectDebugging body w)) =
     VsCodeVariables (fst (body (enter_redirect (init_redirect w) w)))"
  "trace (fst (with_UnrealLogRedirectDebugging body w)) =
     trace (fst (body (enter_redirect (init_redirect w) w)))"
  "snd (with_UnrealLogRedirectDebugging body w) =
     snd (body (enter_redirect (init_redirect w) w))"
  by (simp_all add: with_UnrealLogRedirectDebugging_def exit_redirect_def case_prod_beta Let_def)

lemma enter_redirect_frame:
  "VsCodeVariables (enter_redirect self w) = VsCodeVariables w"
  "trace (enter_redirect self w) = trace w"
  by (simp_all add: enter_redirect_def)

lemma get_exec_globals_snd:
  "VsCodeVariables w' = VsCodeVariables w \<Longrightarrow> snd (get_exec_globals w') = snd (get_exec_globals w)"
  by (simp add: get_exec_globals_def Let_def split: option.split)


lemma read_and_execute_Content:
  "read_and_execute py (Content code) exec_origin is_debugging =
     execute_code py code exec_origin is_debugging"
  by (rule ext) (simp add: read_and_execute_def)

lemma read_and_execute_Read_raises:
  "read_and_execute py (Read_raises e) exec_origin is_debugging w = (w, Raised e)"
  by (simp add: read_and_execute_def)

lemma redirect_of_raise:
  "with_UnrealLogRedirectDebugging (read_and_execute py (Read_raises e) exec_origin is_debugging) w =
     (w, Raised e)"
  by (simp add: with_UnrealLogRedirectDebugging_def read_and_execute_def init_redirect_def
      enter_redirect_def exit_redirect_def Let_def)

lemma main_open_fails:
  "py_open py exec_file = Inl e \<Longrightarrow>
   main py exec_file exec_origin command_id is_debugging name_var w =
     ((main_setup exec_origin name_var w)\<lparr>trace := trace w @ [Open_read exec_file]\<rparr>, Raised e)"
  by (simp add: main_def Let_def main_setup_frame)

lemma main_read_fails:
  "py_open py exec_file = Inr (Read_raises e) \<Longrightarrow>
   main py exec_file exec_origin command_id is_debugging name_var w =
     ((main_setup exec_origin name_var w)\<lparr>trace := trace w @ [Open_read exec_file]\<rparr>, Raised e)"
  by (simp add: main_def Let_def main_setup_frame redirect_of_raise read_and_execute_Read_raises)

lemma main_content:
  "py_open py exec_file = Inr (Content code) \<Longrightarrow>
   main py exec_file exec_origin command_id is_debugging name_var w =
     (if \<not> is_debugging
      then execute_code py code exec_origin is_debugging
             ((main_setup exec_origin name_var w)\<lparr>trace := trace w @ [Open_read exec_file]\<rparr>)
      else with_UnrealLogRedirectDebugging (execute_code py code exec_origin is_debugging)
             ((main_setup exec_origin name_var w)\<lparr>trace := trace w @ [Open_read exec_file]\<rparr>))"
  by (simp add: main_def Let_def main_setup_frame read_and_execute_Content)

lemma main_namespace:
  assumes "py_open py exec_file = Inr (Content code)" and "py_compile py code exec_origin = None"
  shows "VsCodeVariables (fst (main py exec_file exec_origin command_id is_debugging name_var w)) =
     Some (ns_after (py_exec py code exec_origin
       (set_file_and_name exec_origin name_var (snd (get_exec_globals w)))))"
proof -
  let ?d = "set_file_and_name exec_origin name_var (snd (get_exec_globals w))"
  let ?w2 = "(main_setup exec_origin name_var w)\<lparr>trace := trace w @ [Open_read exec_file]\<rparr>"
  let ?w3 = "enter_redirect (init_redirect ?w2) ?w2"
  have 2: "get_exec_globals ?w2 = (?w2, ?d)"
    by (rule get_exec_globals_existing) (simp add: main_setup_frame)
  have 3: "get_exec_globals ?w3 = (?w3, ?d)"
    by (rule get_exec_globals_existing) (simp add: main_setup_frame enter_redirect_frame)
  show ?thesis
  proof (cases is_debugging)
    case False
    then show ?thesis
      using assms 2 by (simp add: main_content execute_code_namespace)
  next
    case True
    then show ?thesis
      using assms 3 by (simp add: main_content redirect_frame execute_code_namespace)
  qed
qed


subsection \<open>Runs of the sample scripts through execute_code\<close>




lemma sample_raises_after_rebinding:
  "snd (exec_user_code sample_env ''unreal.log_error = None; 1/0'' ''C:/proj/a.py'' fresh_world) =
     Some (zero_division ''C:/proj/a.py'')"
  by code_simp


lemma sample_after_one_namespace:
  "VsCodeVariables sample_after_one =
     Some (ns_after (py_exec sample_env ''x = 1'' ''/tmp/one.py''
       (set_file_and_name ''/tmp/one.py'' (Some ''__main__'')
          (snd (get_exec_globals fresh_world)))))"
  unfolding sample_after_one_def
  by (rule main_namespace) (simp_all add: sample_env_def sample_open_def no_compile_error_def)

subsection \<open>The logging entry points are restored\<close>

text \<open>
  C7. Whatever the body of \<^verbatim>\<open>with UnrealLogRedirectDebugging():\<close> does to the state,
  the three logging entry points it may have rebound included, and whether it returns or
  raises, after the block \<^verbatim>\<open>unreal.log\<close>, \<^verbatim>\<open>unreal.log_error\<close> and \<^verbatim>\<open>unreal.log_warning\<close>
  are the objects they were before the block, and the body's outcome is the block's.
\<close>

theorem redirect_restores_handlers:
  "unreal_log (fst (with_UnrealLogRedirectDebugging body w)) = unreal_log w \<and>
   unreal_log_error (fst (with_UnrealLogRedirectDebugging body w)) = unreal_log_error w \<and>
   unreal_log_warning (fst (with_UnrealLogRedirectDebugging body w)) = unreal_log_warning w \<and>
   snd (with_UnrealLogRedirectDebugging body w) = snd (body (enter_redirect (init_redirect w) w))"
  by (simp add: with_UnrealLogRedirectDebugging_def init_redirect_def exit_redirect_def
      split: prod.split)

subsection \<open>Which exceptions execute_code catches\<close>




subsection \<open>One message, without the frame of execute_code\<close>




subsection \<open>A script that succeeds\<close>




subsection \<open>The rewrite of a frame header\<close>

text \<open>
  For a header \<^verbatim>\<open>File "<path>", line <N>, in <scope>\<close> whose path has no comma and no
  newline, the rewritten entry is the header with \<^verbatim>\<open>:<N>\<close> put after the path, so it
  contains \<^verbatim>\<open><path>:<N>\<close>. Digits in the path do no harm.
\<close>

lemma header_without_comma_contains_path_line:
  assumes "CHR '','' \<notin> set path" and "CHR 0x0A \<notin> set path"
    and "\<forall>c\<in>set lineno. is_decimal c"
  shows "\<exists>m. reformat_line (frame_entry path lineno scope source_text) = Inr m \<and>
           py_in (path @ '':'' @ lineno) m"
proof -
  let ?m = \<open>''  File "'' @ path @ '':'' @ lineno @ ''", line '' @ lineno @ '', in '' @ scope @
          ''\<newline>'' @ source_text\<close>
  have \<open>?m = ''  File "'' @ (path @ '':'' @ lineno) @
      (''", line '' @ lineno @ '', in '' @ scope @ ''\<newline>'' @ source_text)\<close>
    by simp
  then have "py_in (path @ '':'' @ lineno) ?m" unfolding py_in_iff by blast
  with reformat_line_header_without_comma [OF assms] show ?thesis by simp
qed

text \<open>
  C3. The specification states the rewrite for all paths, and line 127 splits the entry at its first two commas.
  With a comma in the path the first component ends inside the path, the digits are taken
  from the rest of the path, and the rewritten entry does not contain \<^verbatim>\<open><path>:<N>\<close>:
  for the path \<^verbatim>\<open>C:/my,proj/a.py\<close> at line 7 the entry becomes
  \<^verbatim>\<open>File "C:/m:",proj/a.py", line 7, in <module>\<close>.
\<close>

theorem comma_in_path_breaks_rewrite:
  \<open>reformat_line (frame_entry ''C:/my,proj/a.py'' ''7'' ''<module>'' ''    1/0\<newline>'') =
     Inr (''  File "C:/m:",proj/a.py", line 7, in <module>\<newline>'' @ ''    1/0\<newline>'') \<and>
   \<not> py_in ''C:/my,proj/a.py:7''
     (''  File "C:/m:",proj/a.py", line 7, in <module>\<newline>'' @ ''    1/0\<newline>'')\<close>
  by code_simp

subsection \<open>The quote that is removed\<close>

text \<open>
  What line 131 does to an entry. An entry that is not a frame header loses its first
  quote, wherever it stands, or stays as it is when it has none. In a frame header line 129
  has put a quote in front, and that one is removed, so the header keeps all its own
  quotes.
\<close>

lemma reformat_line_first_quote:
  \<open>(\<not> re_search frame_header_re (py_lower line) \<longrightarrow>
      reformat_line line = Inr (replace_first (CHR ''"'') line)) \<and>
   (re_search frame_header_re (py_lower line) \<longrightarrow>
      (\<exists>c0 c1 cs. py_split (CHR '','') 2 line = c0 # c1 # cs \<and>
         reformat_line line =
           Inr (py_join '','' ((butlast c0 @ '':'' @ filter is_digit c1 @ ''"'') # c1 # cs)))) \<and>
   (CHR ''"'' \<notin> set s \<longrightarrow> replace_first (CHR ''"'') s = s) \<and>
   (CHR ''"'' \<notin> set a \<longrightarrow> replace_first (CHR ''"'') (a @ CHR ''"'' # b) = a @ b)\<close>
proof (intro conjI impI)
  assume "\<not> re_search frame_header_re (py_lower line)"
  then show \<open>reformat_line line = Inr (replace_first (CHR ''"'') line)\<close>
    by (simp add: reformat_line_def)
next
  assume m: "re_search frame_header_re (py_lower line)"
  then have "CHR '','' \<in> set line" by (rule frame_header_has_comma)
  then obtain c0 c1 cs where sp: "py_split (CHR '','') 2 line = c0 # c1 # cs"
    using py_split_two [of "CHR '',''" line 0] by (auto simp: numeral_2_eq_2)
  have \<open>reformat_line line =
      Inr (py_join '','' ((butlast c0 @ '':'' @ filter is_digit c1 @ ''"'') # c1 # cs))\<close>
    using m sp by (simp add: reformat_line_def Let_def)
  with sp show \<open>\<exists>c0 c1 cs. py_split (CHR '','') 2 line = c0 # c1 # cs \<and>
      reformat_line line =
        Inr (py_join '','' ((butlast c0 @ '':'' @ filter is_digit c1 @ ''"'') # c1 # cs))\<close>
    by blast
next
  assume \<open>CHR ''"'' \<notin> set s\<close>
  then show \<open>replace_first (CHR ''"'') s = s\<close> by (rule replace_first_absent)
next
  assume \<open>CHR ''"'' \<notin> set a\<close>
  then show \<open>replace_first (CHR ''"'') (a @ CHR ''"'' # b) = a @ b\<close> by (rule replace_first_at)
qed

text \<open>
  C8. Only a quote that leads the entry is to be removed. Line 131 stands outside the
  \<^verbatim>\<open>if\<close> of line 126 and removes the first quote of every retained entry. Two entries that
  do not start with a quote, are retained, and lose one of their own quotes: the last
  entry of a traceback of \<^verbatim>\<open>raise ValueError('say "hi"')\<close>, and the header of a
  \<^verbatim>\<open>SyntaxError\<close>, which has no scope and so is not rewritten. A rewritten frame header
  keeps its quotes.
\<close>

theorem quote_inside_line_is_removed:
  \<open>hd ''ValueError: say "hi"\<newline>'' \<noteq> CHR ''"'' \<and>
   \<not> py_in ''execute_code'' ''ValueError: say "hi"\<newline>'' \<and>
   reformat_line ''ValueError: say "hi"\<newline>'' = Inr ''ValueError: say hi"\<newline>'' \<and>
   hd ''  File "C:/proj/a.py", line 1\<newline>'' \<noteq> CHR ''"'' \<and>
   \<not> py_in ''execute_code'' ''  File "C:/proj/a.py", line 1\<newline>'' \<and>
   reformat_line ''  File "C:/proj/a.py", line 1\<newline>'' =
     Inr ''  File C:/proj/a.py", line 1\<newline>'' \<and>
   reformat_line (frame_entry ''C:/proj/a.py'' ''1'' ''<module>'' ''    1/0\<newline>'') =
     Inr (''  File "C:/proj/a.py:1", line 1, in <module>\<newline>'' @ ''    1/0\<newline>'')\<close>
  by code_simp

subsection \<open>The namespace persists\<close>

text \<open>
  C5, as amended. The namespace is created at most once: where it exists,
  \<^verbatim>\<open>get_exec_globals\<close> returns it and leaves the state as it is. A later call of
  \<^verbatim>\<open>execute_code\<close> executes its script on the namespace as the earlier script left it, so
  every binding of the earlier script is visible. A later call of \<^verbatim>\<open>main\<close> executes its
  script on that namespace after lines 144-148, which keep every binding but those of
  \<^verbatim>\<open>__file__\<close> and \<^verbatim>\<open>__name__\<close>.
\<close>

theorem shared_namespace_persists:
  assumes "VsCodeVariables w1 = Some d1"
  shows "get_exec_globals w1 = (w1, d1) \<and>
     (py_compile py code filename = None \<longrightarrow>
        VsCodeVariables (fst (execute_code py code filename dbg w1)) =
          Some (ns_after (py_exec py code filename d1))) \<and>
     (py_open py exec_file = Inr (Content code) \<and> py_compile py code exec_origin = None \<longrightarrow>
        VsCodeVariables (fst (main py exec_file exec_origin command_id dbg name_var w1)) =
          Some (ns_after (py_exec py code exec_origin
            (set_file_and_name exec_origin name_var d1)))) \<and>
     (k \<noteq> ''__file__'' \<and> k \<noteq> ''__name__'' \<longrightarrow>
        set_file_and_name exec_origin name_var d1 k = d1 k) \<and>
     (py_compile py code filename = None \<longrightarrow>
        VsCodeVariables (fst (execute_code py code filename dbg w0)) =
          Some (ns_after (py_exec py code filename (snd (get_exec_globals w0))))) \<and>
     (py_open py exec_file = Inr (Content code) \<and> py_compile py code exec_origin = None \<longrightarrow>
        VsCodeVariables (fst (main py exec_file exec_origin command_id dbg name_var w0)) =
          Some (ns_after (py_exec py code exec_origin
            (set_file_and_name exec_origin name_var (snd (get_exec_globals w0))))))"
proof -
  have g: "get_exec_globals w1 = (w1, d1)"
    using assms by (rule get_exec_globals_existing)
  then have s: "snd (get_exec_globals w1) = d1" by simp
  show ?thesis
    using g s execute_code_namespace [of py code filename dbg w1]
      main_namespace [of py exec_file code exec_origin command_id dbg name_var w1]
      set_file_and_name_other [of k exec_origin name_var d1]
      execute_code_namespace [of py code filename dbg w0]
      main_namespace [of py exec_file code exec_origin command_id dbg name_var w0]
    by simp
qed

theorem shared_namespace_persists_witness:
  "namespace_get sample_after_one ''x'' = Some (PyInt 1) \<and>
   get_exec_globals sample_after_one =
     (sample_after_one,
      ns_after (py_exec sample_env ''x = 1'' ''/tmp/one.py''
        (set_file_and_name ''/tmp/one.py'' (Some ''__main__'')
           (snd (get_exec_globals fresh_world))))) \<and>
   set_file_and_name ''/tmp/name.py'' None
     (ns_after (py_exec sample_env ''x = 1'' ''/tmp/one.py''
        (set_file_and_name ''/tmp/one.py'' (Some ''__main__'')
           (snd (get_exec_globals fresh_world))))) ''x'' = Some (PyInt 1) \<and>
   namespace_get
     (fst (main sample_env ''/tmp/name.py'' ''/tmp/name.py'' ''2'' False None sample_after_one))
     ''x'' = Some (PyInt 1) \<and>
   namespace_get
     (fst (execute_code sample_env ''__name__ = 5'' ''/tmp/name.py'' False sample_after_one))
     ''x'' = Some (PyInt 1)"
proof -
  let ?d1 = "ns_after (py_exec sample_env ''x = 1'' ''/tmp/one.py''
        (set_file_and_name ''/tmp/one.py'' (Some ''__main__'')
           (snd (get_exec_globals fresh_world))))"
  have x: "?d1 ''x'' = Some (PyInt 1)" by (simp add: sample_env_def sample_exec_def)
  have 1: "namespace_get sample_after_one ''x'' = Some (PyInt 1)"
    by (simp add: namespace_get_def sample_after_one_namespace x)
  have 2: "py_open sample_env ''/tmp/name.py'' = Inr (Content ''__name__ = 5'')"
    by (simp add: sample_env_def sample_open_def)
  have 3: "py_compile sample_env ''__name__ = 5'' ''/tmp/name.py'' = None"
    by (simp add: sample_env_def no_compile_error_def)
  have 4: "ns_after (py_exec sample_env ''__name__ = 5'' ''/tmp/name.py'' d) ''x'' = d ''x''" for d
    by (simp add: sample_env_def sample_exec_def)
  note t = shared_namespace_persists [OF sample_after_one_namespace,
      of sample_env "''__name__ = 5''" "''/tmp/name.py''" False "''/tmp/name.py''"
        "''/tmp/name.py''" "''2''" None "''x''"]
  from t have g: "get_exec_globals sample_after_one = (sample_after_one, ?d1)" by blast
  from t have k: "set_file_and_name ''/tmp/name.py'' None ?d1 ''x'' = Some (PyInt 1)"
    using x by simp
  from t 2 3 have "VsCodeVariables
      (fst (main sample_env ''/tmp/name.py'' ''/tmp/name.py'' ''2'' False None sample_after_one)) =
      Some (ns_after (py_exec sample_env ''__name__ = 5'' ''/tmp/name.py''
        (set_file_and_name ''/tmp/name.py'' None ?d1)))"
    by blast
  then have m: "namespace_get
     (fst (main sample_env ''/tmp/name.py'' ''/tmp/name.py'' ''2'' False None sample_after_one))
     ''x'' = Some (PyInt 1)"
    by (simp add: namespace_get_def 4 k)
  from t 3 have "VsCodeVariables
      (fst (execute_code sample_env ''__name__ = 5'' ''/tmp/name.py'' False sample_after_one)) =
      Some (ns_after (py_exec sample_env ''__name__ = 5'' ''/tmp/name.py'' ?d1))"
    by blast
  then have e: "namespace_get
     (fst (execute_code sample_env ''__name__ = 5'' ''/tmp/name.py'' False sample_after_one))
     ''x'' = Some (PyInt 1)"
    by (simp add: namespace_get_def 4 x)
  from 1 g k m e show ?thesis by blast
qed

text \<open>
  The sentence of the specification, read for every input, fails for the name \<^verbatim>\<open>__name__\<close>: the first script binds it,
  the second call of \<^verbatim>\<open>main\<close> has no \<^verbatim>\<open>name_var\<close>, and line 148 removes the binding
  before the second script runs.
\<close>

theorem main_removes_name_bound_by_script:
  "namespace_get sample_after_name ''__name__'' = Some (PyInt 5) \<and>
   namespace_get (main_setup ''/tmp/one.py'' None sample_after_name) ''__name__'' = None \<and>
   namespace_get
     (fst (main sample_env ''/tmp/one.py'' ''/tmp/one.py'' ''2'' False None sample_after_name))
     ''__name__'' = None \<and>
   namespace_get
     (fst (main sample_env ''/tmp/one.py'' ''/tmp/one.py'' ''2'' False None sample_after_name))
     ''x'' = Some (PyInt 1)"
  by code_simp

subsection \<open>The bindings main sets\<close>

text \<open>
  C6, as amended. Before the script is executed, \<^verbatim>\<open>main\<close> binds \<^verbatim>\<open>__file__\<close> to
  \<^verbatim>\<open>exec_origin\<close>. It binds \<^verbatim>\<open>__name__\<close> to \<^verbatim>\<open>name_var\<close> when that is a string that is
  not empty; when \<^verbatim>\<open>name_var\<close> is omitted, or is the empty string, the namespace has no
  binding of \<^verbatim>\<open>__name__\<close> after the setup, whatever an earlier call left. The script is
  then executed on the namespace the setup produced.
\<close>

theorem main_sets_file_and_name:
  "VsCodeVariables (main_setup exec_origin name_var w) =
     Some (set_file_and_name exec_origin name_var (snd (get_exec_globals w))) \<and>
   namespace_get (main_setup exec_origin name_var w) ''__file__'' = Some (PyStr exec_origin) \<and>
   (name_var = Some n \<and> n \<noteq> [] \<longrightarrow>
      namespace_get (main_setup exec_origin name_var w) ''__name__'' = Some (PyStr n)) \<and>
   (name_var = None \<or> name_var = Some [] \<longrightarrow>
      namespace_get (main_setup exec_origin name_var w) ''__name__'' = None) \<and>
   (py_open py exec_file = Inr (Content code) \<and> py_compile py code exec_origin = None \<longrightarrow>
      VsCodeVariables
        (fst (main py exec_file exec_origin command_id is_debugging name_var w)) =
        Some (ns_after (py_exec py code exec_origin
          (set_file_and_name exec_origin name_var (snd (get_exec_globals w))))))"
  by (auto simp: main_setup_frame namespace_get_def set_file_and_name_file
      set_file_and_name_given set_file_and_name_omitted main_namespace)

theorem main_sets_file_and_name_witness:
  "namespace_get (main_setup ''C:/proj/a.py'' (Some ''__main__'') fresh_world) ''__file__'' =
     Some (PyStr ''C:/proj/a.py'') \<and>
   namespace_get (main_setup ''C:/proj/a.py'' (Some ''__main__'') fresh_world) ''__name__'' =
     Some (PyStr ''__main__'') \<and>
   namespace_get sample_after_one ''__name__'' = Some (PyStr ''__main__'') \<and>
   namespace_get (main_setup ''C:/proj/b.py'' None sample_after_one) ''__name__'' = None \<and>
   namespace_get (main_setup ''C:/proj/b.py'' None sample_after_one) ''__file__'' =
     Some (PyStr ''C:/proj/b.py'') \<and>
   namespace_get
     (fst (main sample_env ''/tmp/one.py'' ''C:/proj/b.py'' ''2'' False None sample_after_one))
     ''__name__'' = None"
proof -
  have 1: "namespace_get sample_after_one ''__name__'' = Some (PyStr ''__main__'')"
    by code_simp
  have 2: "py_open sample_env ''/tmp/one.py'' = Inr (Content ''x = 1'')"
    by (simp add: sample_env_def sample_open_def)
  have 3: "py_compile sample_env ''x = 1'' ''C:/proj/b.py'' = None"
    by (simp add: sample_env_def no_compile_error_def)
  have 4: "ns_after (py_exec sample_env ''x = 1'' ''C:/proj/b.py'' d) ''__name__'' = d ''__name__''"
    for d by (simp add: sample_env_def sample_exec_def)
  have 5: "set_file_and_name ''C:/proj/b.py'' None d ''__name__'' = None" for d
    by (simp add: set_file_and_name_omitted)
  note a = main_sets_file_and_name [of "''C:/proj/a.py''" "Some ''__main__''" fresh_world
        "''__main__''" sample_env "''/tmp/nope.py''" "[]" "''1''" False]
  note b = main_sets_file_and_name [of "''C:/proj/b.py''" None sample_after_one
        "[]" sample_env "''/tmp/one.py''" "''x = 1''" "''2''" False]
  from b 2 3 have "VsCodeVariables
        (fst (main sample_env ''/tmp/one.py'' ''C:/proj/b.py'' ''2'' False None sample_after_one)) =
      Some (ns_after (py_exec sample_env ''x = 1'' ''C:/proj/b.py''
        (set_file_and_name ''C:/proj/b.py'' None (snd (get_exec_globals sample_after_one)))))"
    by blast
  then have 6: "namespace_get
     (fst (main sample_env ''/tmp/one.py'' ''C:/proj/b.py'' ''2'' False None sample_after_one))
     ''__name__'' = None"
    by (simp add: namespace_get_def 4 5)
  from a b 1 6 show ?thesis by simp
qed

text \<open>
  The sentence of the specification, read for every input, fails for the empty string: a \<^verbatim>\<open>name_var\<close> is supplied, and
  \<^verbatim>\<open>if name_var:\<close> on line 145 takes it for none, so \<^verbatim>\<open>__name__\<close> is removed and not set.
\<close>

theorem empty_name_var_is_not_bound:
  "namespace_get sample_after_one ''__name__'' = Some (PyStr ''__main__'') \<and>
   namespace_get (main_setup ''C:/proj/b.py'' (Some []) sample_after_one) ''__name__'' = None \<and>
   namespace_get (main_setup ''C:/proj/a.py'' (Some []) fresh_world) ''__name__'' = None"
  by code_simp

subsection \<open>No status file is written\<close>




subsection \<open>A file that cannot be read\<close>

text \<open>
  C10. When \<^verbatim>\<open>open(exec_file)\<close> raises, or \<^verbatim>\<open>read()\<close> of the opened file raises, the
  exception leaves \<^verbatim>\<open>main\<close>, the only event added is the opening of the file, so no
  logging entry point is called, and the namespace is the one the setup of lines 142-148
  produced: \<^verbatim>\<open>__file__\<close> is bound to \<^verbatim>\<open>exec_origin\<close> and \<^verbatim>\<open>__name__\<close> is set or removed as
  for a call that succeeds.
\<close>

theorem main_unreadable_file:
  assumes "py_open py exec_file = Inl e \<or> py_open py exec_file = Inr (Read_raises e)"
  shows "snd (main py exec_file exec_origin command_id is_debugging name_var w) = Raised e \<and>
     new_events w (fst (main py exec_file exec_origin command_id is_debugging name_var w)) =
       [Open_read exec_file] \<and>
     calls (new_events w
       (fst (main py exec_file exec_origin command_id is_debugging name_var w))) = [] \<and>
     VsCodeVariables (fst (main py exec_file exec_origin command_id is_debugging name_var w)) =
       Some (set_file_and_name exec_origin name_var (snd (get_exec_globals w))) \<and>
     namespace_get (fst (main py exec_file exec_origin command_id is_debugging name_var w))
       ''__file__'' = Some (PyStr exec_origin) \<and>
     (name_var = Some n \<and> n \<noteq> [] \<longrightarrow>
        namespace_get (fst (main py exec_file exec_origin command_id is_debugging name_var w))
          ''__name__'' = Some (PyStr n)) \<and>
     (name_var = None \<or> name_var = Some [] \<longrightarrow>
        namespace_get (fst (main py exec_file exec_origin command_id is_debugging name_var w))
          ''__name__'' = None)"
proof -
  have m: "main py exec_file exec_origin command_id is_debugging name_var w =
     ((main_setup exec_origin name_var w)\<lparr>trace := trace w @ [Open_read exec_file]\<rparr>, Raised e)"
    using assms main_open_fails main_read_fails by blast
  have "trace (fst (main py exec_file exec_origin command_id is_debugging name_var w)) =
      trace w @ [Open_read exec_file]"
    using m by simp
  then have n: "new_events w
      (fst (main py exec_file exec_origin command_id is_debugging name_var w)) =
      [Open_read exec_file]"
    by (rule new_events_append)
  show ?thesis
    using m n
    by (auto simp: main_setup_frame namespace_get_def set_file_and_name_file
        set_file_and_name_given set_file_and_name_omitted)
qed

theorem main_unreadable_file_witness:
  "py_open sample_env ''/tmp/nope.py'' = Inl file_not_found \<and>
   namespace_get fresh_world ''__file__'' = None \<and>
   snd (main sample_env ''/tmp/nope.py'' ''C:/proj/a.py'' ''17'' False (Some ''__main__'')
          fresh_world) = Raised file_not_found \<and>
   new_events fresh_world
     (fst (main sample_env ''/tmp/nope.py'' ''C:/proj/a.py'' ''17'' False (Some ''__main__'')
        fresh_world)) = [Open_read ''/tmp/nope.py''] \<and>
   namespace_get
     (fst (main sample_env ''/tmp/nope.py'' ''C:/proj/a.py'' ''17'' False (Some ''__main__'')
        fresh_world)) ''__file__'' = Some (PyStr ''C:/proj/a.py'') \<and>
   namespace_get
     (fst (main sample_env ''/tmp/nope.py'' ''C:/proj/a.py'' ''17'' False (Some ''__main__'')
        fresh_world)) ''__name__'' = Some (PyStr ''__main__'') \<and>
   py_open sample_env ''/tmp/binary.py'' = Inr (Read_raises unicode_decode_error) \<and>
   snd (main sample_env ''/tmp/binary.py'' ''C:/proj/b.py'' ''18'' True None sample_after_one) =
     Raised unicode_decode_error \<and>
   namespace_get sample_after_one ''__name__'' = Some (PyStr ''__main__'') \<and>
   namespace_get
     (fst (main sample_env ''/tmp/binary.py'' ''C:/proj/b.py'' ''18'' True None sample_after_one))
     ''__name__'' = None"
proof -
  have 1: "py_open sample_env ''/tmp/nope.py'' = Inl file_not_found"
    by (simp add: sample_env_def sample_open_def)
  have 2: "py_open sample_env ''/tmp/binary.py'' = Inr (Read_raises unicode_decode_error)"
    by (simp add: sample_env_def sample_open_def)
  have 3: "namespace_get fresh_world ''__file__'' = None"
    by (simp add: namespace_get_def fresh_world_def)
  have 4: "namespace_get sample_after_one ''__name__'' = Some (PyStr ''__main__'')"
    by code_simp
  show ?thesis
    using main_unreadable_file [of sample_env "''/tmp/nope.py''" file_not_found
        "''C:/proj/a.py''" "''17''" False "Some ''__main__''" fresh_world "''__main__''"]
      main_unreadable_file [of sample_env "''/tmp/binary.py''" unicode_decode_error
        "''C:/proj/b.py''" "''18''" True None sample_after_one "[]"]
      1 2 3 4
    by simp
qed

end
